theory Spec2Isabelle
  imports Main "HOL-Library.AList"
begin

section \<open>Python values and exceptions\<close>

text \<open>
  The run-time values that travel through \<open>handler.py\<close>: raw request data, validated
  values, what a handler returns. Dictionaries keep insertion order, so they are
  association lists with distinct keys; a transport response object is a reference into
  a store, so that \<open>is\<close> compares references.
\<close>

datatype py_value =
    VNone
  | VBool bool
  | VInt int
  | VStr string
  | VList "py_value list"
  | VDict "(string \<times> py_value) list"
  | VModel "(string \<times> py_value) list"
  | VObject string

text \<open>
  \<open>VModel\<close> is an instance of a \<open>pydantic.BaseModel\<close> subclass (its fields), \<open>VObject\<close> an
  instance of some other class, one that defines neither \<open>__bool__\<close> nor \<open>__len__\<close> and
  that pydantic cannot encode as JSON. Floats are left out.

  What a handler returns, and what it is called with, can also be a transport response
  object (a reference), a class, an exception instance or a tuple.
\<close>

datatype py_object =
    Value py_value
  | ResponseObj nat
  | HTTPExceptionClass int
  | HTTPExceptionInstance int
  | OtherClass string
  | Tuple "py_object list"

datatype extraction_problem =
    MissingParameterType string
  | UnexpectedParameter string "string set"

datatype error =
    IndexError
  | KeyError
  | TypeError
  | ValueError
  | JSONDecodeError
  | MissingContentTypeError string
  | UnexpectedContentTypeError string
  | HTTPMethodNotAllowed string "string set"
  | WrongAnnotatedWebResponseError
  | ExtractionTypeError extraction_problem
  | HandlerResultTypeError
  | UnexpectedHttpCodeError
  | NotOriginalResponseError
  | UnhandledResponseTypeError
  | CannotSerializeResponseError

text \<open>Truthiness, as \<open>if x:\<close> tests it.\<close>

fun truthy :: "py_value \<Rightarrow> bool" where
  "truthy VNone = False"
| "truthy (VBool b) = b"
| "truthy (VInt i) = (i \<noteq> 0)"
| "truthy (VStr s) = (s \<noteq> [])"
| "truthy (VList xs) = (xs \<noteq> [])"
| "truthy (VDict kvs) = (kvs \<noteq> [])"
| "truthy (VModel kvs) = True"
| "truthy (VObject n) = True"

section \<open>Form bodies: \<open>_parse_qs\<close>\<close>

subsection \<open>The standard library's \<open>unquote\<close> and \<open>parse_qsl\<close>\<close>

text \<open>
  \<open>urllib.parse.unquote\<close> and \<open>urllib.parse.parse_qsl\<close> (default arguments: separator
  \<open>&\<close>, blank values dropped, no strict parsing) are Python's, not this repository's.
  Text is a sequence of bytes here; a percent escape becomes the byte it names.
\<close>

definition hex_val :: "char \<Rightarrow> nat option" where
  "hex_val c =
     (let n = (of_char c :: nat)
      in if 48 \<le> n \<and> n \<le> 57 then Some (n - 48)
         else if 65 \<le> n \<and> n \<le> 70 then Some (n - 55)
         else if 97 \<le> n \<and> n \<le> 102 then Some (n - 87)
         else None)"

fun unquote :: "string \<Rightarrow> string" where
  "unquote (c # h # l # rest) =
     (if c = CHR ''%'' then
        (case (hex_val h, hex_val l) of
           (Some a, Some b) \<Rightarrow> char_of (16 * a + b) # unquote rest
         | _ \<Rightarrow> c # unquote (h # l # rest))
      else c # unquote (h # l # rest))"
| "unquote (c # cs) = c # unquote cs"
| "unquote [] = []"

fun split_on :: "char \<Rightarrow> string \<Rightarrow> string list" where
  "split_on sep [] = [[]]"
| "split_on sep (c # cs) =
     (if c = sep then [] # split_on sep cs
      else (case split_on sep cs of
              [] \<Rightarrow> [[c]]
            | w # ws \<Rightarrow> (c # w) # ws))"

fun split_first :: "char \<Rightarrow> string \<Rightarrow> (string \<times> string) option" where
  "split_first sep [] = None"
| "split_first sep (c # cs) =
     (if c = sep then Some ([], cs)
      else (case split_first sep cs of
              None \<Rightarrow> None
            | Some (a, b) \<Rightarrow> Some (c # a, b)))"

definition plus_to_space :: "string \<Rightarrow> string" where
  "plus_to_space s = map (\<lambda>c. if c = CHR ''+'' then CHR '' '' else c) s"

definition parse_field :: "string \<Rightarrow> (string \<times> string) option" where
  "parse_field nv =
     (if nv = [] then None
      else (case split_first CHR ''='' nv of
              None \<Rightarrow> None
            | Some (n, v) \<Rightarrow>
                if v = [] then None
                else Some (unquote (plus_to_space n), unquote (plus_to_space v))))"

definition parse_qsl :: "string \<Rightarrow> (string \<times> string) list" where
  "parse_qsl qs = List.map_filter parse_field (split_on CHR ''&'' qs)"

subsection \<open>The loop of \<open>_parse_qs\<close>\<close>

text \<open>
  \<open>parsed_result[name][0]\<close>: subscripting a string gives its first character (a string of
  length one), subscripting a list its first element; both raise \<open>IndexError\<close> when empty.
\<close>

fun subscript0 :: "py_value \<Rightarrow> error + py_value" where
  "subscript0 (VStr s) = (case s of [] \<Rightarrow> Inl IndexError | c # _ \<Rightarrow> Inr (VStr [c]))"
| "subscript0 (VList xs) = (case xs of [] \<Rightarrow> Inl IndexError | x # _ \<Rightarrow> Inr x)"
| "subscript0 (VDict kvs) = Inl KeyError"
| "subscript0 (VModel kvs) = Inl TypeError"
| "subscript0 VNone = Inl TypeError"
| "subscript0 (VBool b) = Inl TypeError"
| "subscript0 (VInt i) = Inl TypeError"
| "subscript0 (VObject n) = Inl TypeError"

fun parse_qs_loop ::
  "(string \<times> py_value) list \<Rightarrow> (string \<times> string) list \<Rightarrow> error + (string \<times> py_value) list" where
  "parse_qs_loop parsed_result [] = Inr parsed_result"
| "parse_qs_loop parsed_result ((name, val) # pairs) =
     (case map_of parsed_result name of
        Some stored \<Rightarrow>
          (case subscript0 stored of
             Inl e \<Rightarrow> Inl e
           | Inr fst_arg \<Rightarrow>
               parse_qs_loop (AList.update name (VList [fst_arg, VStr val]) parsed_result) pairs)
      | None \<Rightarrow> parse_qs_loop (AList.update name (VStr val) parsed_result) pairs)"

definition parse_qs :: "string \<Rightarrow> error + (string \<times> py_value) list" where
  "parse_qs qs = parse_qs_loop [] (parse_qsl qs)"

section \<open>Validation errors and annotations\<close>

text \<open>
  pydantic's \<open>ErrorDict\<close>: \<open>{'loc': ..., 'msg': ..., 'type': ...}\<close>.
\<close>

datatype loc_item = LocStr string | LocInt int

record error_dict =
  loc :: "loc_item list"
  msg :: string
  err_type :: string

text \<open>
  The error classes \<open>_get_pydantic_error_type\<close> chooses from, and the class that
  \<open>_get_unknown_pydantic_type_error\<close> builds with \<open>type('TypeError', (PydanticTypeError,),
  {'msg_template': err_msg})\<close>. The message templates and \<open>get_exc_type\<close> are pydantic's.
\<close>

datatype pydantic_error =
    IntegerError | StrError | FloatError | DictError | BytesError | BoolError
  | SynthesizedTypeError string

fun msg_template :: "pydantic_error \<Rightarrow> string" where
  "msg_template IntegerError = ''value is not a valid integer''"
| "msg_template StrError = ''str type expected''"
| "msg_template FloatError = ''value is not a valid float''"
| "msg_template DictError = ''value is not a valid dict''"
| "msg_template BytesError = ''byte type expected''"
| "msg_template BoolError = ''value could not be parsed to a boolean''"
| "msg_template (SynthesizedTypeError err_msg) = err_msg"

fun get_exc_type :: "pydantic_error \<Rightarrow> string" where
  "get_exc_type IntegerError = ''type_error.integer''"
| "get_exc_type StrError = ''type_error.str''"
| "get_exc_type FloatError = ''type_error.float''"
| "get_exc_type DictError = ''type_error.dict''"
| "get_exc_type BytesError = ''type_error.bytes''"
| "get_exc_type BoolError = ''type_error.bool''"
| "get_exc_type (SynthesizedTypeError err_msg) = ''type_error.type''"

text \<open>
  A class used as an annotation. \<open>kind\<close> says whether it is a pydantic model class (an
  instance of \<open>ModelMetaclass\<close>), \<open>web.Response\<close> itself, or some other class; for the
  latter \<open>plain_type\<close> names the key of \<open>pydantic_error_map\<close> it is, if any. Calling the
  class is an opaque capability: \<open>call_kw\<close> is \<open>cls(**data)\<close>, \<open>call_pos\<close> is
  \<open>cls(data)\<close>. pydantic's \<open>ValidationError\<close> is a \<open>ValueError\<close>.
\<close>

datatype plain_type = TInt | TStr | TFloat | TDict | TBytes | TBool | TOther

datatype class_kind = ModelClass | ResponseClass | PlainClass plain_type

datatype call_outcome =
    Returns py_value
  | RaisesValidationError "error_dict list"
  | RaisesValueError
  | RaisesTypeError

record py_class =
  kind :: class_kind
  class_repr :: string
  call_kw :: "(string \<times> py_value) list \<Rightarrow> call_outcome"
  call_pos :: "py_value \<Rightarrow> call_outcome"

definition get_unknown_pydantic_type_error :: "string \<Rightarrow> pydantic_error" where
  "get_unknown_pydantic_type_error err_msg = SynthesizedTypeError err_msg"

definition get_pydantic_error_type :: "py_class \<Rightarrow> pydantic_error" where
  "get_pydantic_error_type type_error_class =
     (case kind type_error_class of
        PlainClass TInt \<Rightarrow> IntegerError
      | PlainClass TStr \<Rightarrow> StrError
      | PlainClass TFloat \<Rightarrow> FloatError
      | PlainClass TDict \<Rightarrow> DictError
      | PlainClass TBytes \<Rightarrow> BytesError
      | PlainClass TBool \<Rightarrow> BoolError
      | _ \<Rightarrow> get_unknown_pydantic_type_error
               (''value is not a '' @ class_repr type_error_class))"

definition gef_pydantic_like_answer_by_class_type_error ::
  "loc_item list \<Rightarrow> py_class \<Rightarrow> error_dict list" where
  "gef_pydantic_like_answer_by_class_type_error l type_error_class =
     (let exc = get_pydantic_error_type type_error_class
      in [\<lparr>loc = l, msg = msg_template exc, err_type = get_exc_type exc\<rparr>])"

definition gef_pydantic_like_answer_by_custom_message ::
  "loc_item list \<Rightarrow> string \<Rightarrow> error_dict list" where
  "gef_pydantic_like_answer_by_custom_message l m =
     (let exc = get_unknown_pydantic_type_error m
      in [\<lparr>loc = l, msg = msg_template exc, err_type = get_exc_type exc\<rparr>])"

section \<open>The request\<close>

text \<open>
  What the pipeline reads from the transport's request object. \<open>req_headers\<close> and
  \<open>req_query\<close> are multidicts (a key can occur more than once; header names compare
  without case), \<open>req_match_info\<close> is a dictionary. \<open>req_text\<close> is \<open>await request.text()\<close>;
  \<open>req_json\<close> is the outcome of \<open>await request.json()\<close>, \<open>None\<close> when it raises
  \<open>JSONDecodeError\<close>.
\<close>

record request =
  req_method :: string
  req_headers :: "(string \<times> string) list"
  req_match_info :: "(string \<times> string) list"
  req_query :: "(string \<times> string) list"
  req_text :: string
  req_json :: "py_value option"

definition lower_char :: "char \<Rightarrow> char" where
  "lower_char c =
     (let n = (of_char c :: nat) in if 65 \<le> n \<and> n \<le> 90 then char_of (n + 32) else c)"

definition lower :: "string \<Rightarrow> string" where
  "lower s = map lower_char s"

definition multidict_get ::
  "(string \<Rightarrow> string) \<Rightarrow> (string \<times> string) list \<Rightarrow> string \<Rightarrow> string option" where
  "multidict_get norm items k = map_of (map (\<lambda>(k', v). (norm k', v)) items) (norm k)"

text \<open>\<open>dict(multidict)\<close>: every key of the multidict, bound to the first value it has.\<close>

definition dict_of_multidict ::
  "(string \<Rightarrow> string) \<Rightarrow> (string \<times> string) list \<Rightarrow> (string \<times> py_value) list" where
  "dict_of_multidict norm items =
     fold (\<lambda>(k, _) d. case multidict_get norm items k of
                         None \<Rightarrow> d
                       | Some v \<Rightarrow> AList.update k (VStr v) d) items []"

definition CONTENT_TYPE :: string where
  "CONTENT_TYPE = ''Content-Type''"

definition request_content_type :: "request \<Rightarrow> string option" where
  "request_content_type req = multidict_get lower (req_headers req) CONTENT_TYPE"

definition fetch_match_info_data :: "request \<Rightarrow> (string \<times> py_value) list" where
  "fetch_match_info_data req = map (\<lambda>(k, v). (k, VStr v)) (req_match_info req)"

definition fetch_query_params_data :: "request \<Rightarrow> (string \<times> py_value) list" where
  "fetch_query_params_data req = dict_of_multidict id (req_query req)"

definition fetch_body_data :: "request \<Rightarrow> error + py_value" where
  "fetch_body_data req =
     (case request_content_type req of
        None \<Rightarrow> Inl (MissingContentTypeError ''missing Content-Type header'')
      | Some ct \<Rightarrow>
          if ct = ''application/json'' then
            (case req_json req of None \<Rightarrow> Inl JSONDecodeError | Some v \<Rightarrow> Inr v)
          else if ct = ''text/plain'' then Inr (VStr (req_text req))
          else if ct = ''application/x-www-form-urlencoded'' then
            (case parse_qs (unquote (req_text req)) of
               Inl e \<Rightarrow> Inl e
             | Inr parsed \<Rightarrow> Inr (VDict parsed))
          else Inl (UnexpectedContentTypeError
                 (''cannot fetch body data. Content-Type '' @ [CHR 0x27] @ ct @ [CHR 0x27]
                    @ '' not allowed here.'')))"

section \<open>Validation\<close>

text \<open>
  Each validator returns the pair the source returns: the validated value (or
  \<open>None\<close>) and the error list (or \<open>None\<close>). An exception the source does not catch
  is \<open>Inl\<close>.
\<close>

type_synonym validation = "py_value \<times> error_dict list option"

definition validate_pydantic_schema ::
  "py_class \<Rightarrow> (string \<times> py_value) list \<Rightarrow> error + validation" where
  "validate_pydantic_schema schema data =
     (case call_kw schema data of
        Returns r \<Rightarrow> Inr (r, None)
      | RaisesValidationError es \<Rightarrow> Inr (VNone, Some es)
      | RaisesValueError \<Rightarrow> Inl ValueError
      | RaisesTypeError \<Rightarrow> Inl TypeError)"

fun errors_truthy :: "error_dict list option \<Rightarrow> bool" where
  "errors_truthy None = False"
| "errors_truthy (Some es) = (es \<noteq> [])"

text \<open>
  The tail every validator shares: \<open>if errors: return None, errors\<close>, else
  \<open>return result, None\<close>.
\<close>

definition checked :: "error + validation \<Rightarrow> error + validation" where
  "checked r =
     (case r of
        Inl e \<Rightarrow> Inl e
      | Inr (res, errors) \<Rightarrow> if errors_truthy errors then Inr (VNone, errors) else Inr (res, None))"

definition validate_headers :: "request \<Rightarrow> py_class \<Rightarrow> error + validation" where
  "validate_headers req headers_type =
     checked (validate_pydantic_schema headers_type (dict_of_multidict lower (req_headers req)))"

definition validate_match_info :: "request \<Rightarrow> py_class \<Rightarrow> error + validation" where
  "validate_match_info req match_info_type =
     checked (validate_pydantic_schema match_info_type (fetch_match_info_data req))"

definition validate_query_params :: "request \<Rightarrow> py_class \<Rightarrow> error + validation" where
  "validate_query_params req query_params_type =
     checked (validate_pydantic_schema query_params_type (fetch_query_params_data req))"

definition validate_body_data :: "request \<Rightarrow> py_class \<Rightarrow> error + validation" where
  "validate_body_data req body_type =
     (case fetch_body_data req of
        Inl (MissingContentTypeError m) \<Rightarrow>
          Inr (VNone, Some (gef_pydantic_like_answer_by_custom_message [LocStr ''body''] m))
      | Inl (UnexpectedContentTypeError m) \<Rightarrow>
          Inr (VNone, Some (gef_pydantic_like_answer_by_custom_message [LocStr ''body''] m))
      | Inl JSONDecodeError \<Rightarrow>
          Inr (VNone, Some (gef_pydantic_like_answer_by_custom_message [LocStr ''body'']
                              ''body is not a json''))
      | Inl e \<Rightarrow> Inl e
      | Inr fetched_body_data \<Rightarrow>
          if kind body_type = ModelClass then
            (case fetched_body_data of
               VDict data \<Rightarrow> checked (validate_pydantic_schema body_type data)
             | _ \<Rightarrow> Inl TypeError)
          else
            (case call_pos body_type fetched_body_data of
               Returns b_result \<Rightarrow> Inr (b_result, None)
             | _ \<Rightarrow> Inr (VNone, Some (gef_pydantic_like_answer_by_class_type_error
                                        [LocStr ''body''] body_type))))"

section \<open>Responses, handlers and the view\<close>

text \<open>
  \<open>_ResponseSchema\<close>, the envelope. A surface's entry in \<open>errors\<close> is optional because
  the source can store \<open>None\<close> there.
\<close>

record response_schema =
  errors :: "(string \<times> error_dict list option) list option"
  result :: "py_value option"

text \<open>\<open>self.errors | error\<close>: the right operand's bindings win, new keys go last.\<close>

definition dict_union :: "(string \<times> 'v) list \<Rightarrow> (string \<times> 'v) list \<Rightarrow> (string \<times> 'v) list" where
  "dict_union a b = fold (\<lambda>(k, v) d. AList.update k v d) b a"

definition set_client_error ::
  "response_schema \<Rightarrow> (string \<times> error_dict list option) list \<Rightarrow> response_schema" where
  "set_client_error schema error =
     (let schema1 = (if errors schema = None then schema\<lparr>errors := Some []\<rparr> else schema)
      in schema1\<lparr>errors := Some (dict_union (case errors schema1 of Some es \<Rightarrow> es | None \<Rightarrow> []) error)\<rparr>)"

definition set_result :: "response_schema \<Rightarrow> py_value \<Rightarrow> response_schema" where
  "set_result schema r = schema\<lparr>result := Some r\<rparr>"

text \<open>
  A transport response object: its status, its content type and its body. The text that
  \<open>schema.json(by_alias=True)\<close> produces is kept as the envelope it serialises. Response
  objects live in a heap, \<open>Response()\<close> allocates the next reference, and \<open>is\<close> compares
  references.
\<close>

datatype response_body = NoBody | TextBody string | JsonBody response_schema

record response =
  status :: int
  content_type :: string
  body :: response_body

record heap =
  objects :: "nat \<Rightarrow> response"
  next_ref :: nat

definition new_response :: "heap \<Rightarrow> nat \<times> heap" where
  "new_response h =
     (next_ref h,
      h\<lparr>objects := (objects h)(next_ref h :=
            \<lparr>status = 200, content_type = ''application/octet-stream'', body = NoBody\<rparr>),
        next_ref := Suc (next_ref h)\<rparr>)"

text \<open>
  A handler method: its declared parameters (name and annotation, \<open>None\<close> for
  \<open>inspect.Parameter.empty\<close>) and what calling it with keyword arguments does to the heap
  and returns. The view has the request and, under the lower-cased method tokens, its
  handler methods; the source types such an attribute as \<open>Optional[_MethodType]\<close>.
\<close>

record handler_method =
  signature :: "(string \<times> py_class option) list"
  run :: "(string \<times> py_object) list \<Rightarrow> heap \<Rightarrow> py_object \<times> heap"

record view =
  request :: request
  attrs :: "(string \<times> handler_method) list"

definition default_response_success_http_code :: int where
  "default_response_success_http_code = 200"

section \<open>Method resolution\<close>

text \<open>\<open>aiohttp.hdrs.METH_ALL\<close>.\<close>

definition METH_ALL :: "string list" where
  "METH_ALL = [''CONNECT'', ''HEAD'', ''GET'', ''DELETE'', ''OPTIONS'', ''PATCH'', ''POST'',
               ''PUT'', ''TRACE'']"

definition hasattr :: "view \<Rightarrow> string \<Rightarrow> bool" where
  "hasattr v name = (map_of (attrs v) name \<noteq> None)"

definition raise_allowed_methods :: "view \<Rightarrow> error" where
  "raise_allowed_methods v =
     (let allowed_methods = set (filter (\<lambda>m. hasattr v (lower m)) METH_ALL)
      in HTTPMethodNotAllowed (req_method (request v)) allowed_methods)"

definition get_handler_method :: "view \<Rightarrow> error + handler_method" where
  "get_handler_method v =
     (case map_of (attrs v) (lower (req_method (request v))) of
        None \<Rightarrow> Inl (raise_allowed_methods v)
      | Some m \<Rightarrow> Inr m)"

section \<open>Annotations\<close>

record extracted_annotations =
  a_headers :: "py_class option"
  a_match_info :: "py_class option"
  a_query_params :: "py_class option"
  a_body :: "py_class option"
  a_response :: "py_class option"

definition request_supported_params :: "string set" where
  "request_supported_params = {''headers'', ''query_params'', ''match_info'', ''body''}"

fun extract_annotations_loop ::
  "extracted_annotations \<Rightarrow> (string \<times> py_class option) list \<Rightarrow> error + extracted_annotations" where
  "extract_annotations_loop annotations [] = Inr annotations"
| "extract_annotations_loop annotations ((param_name, None) # params) =
     Inl (ExtractionTypeError (MissingParameterType param_name))"
| "extract_annotations_loop annotations ((param_name, Some param_annotation) # params) =
     (if param_name = ''headers'' then
        extract_annotations_loop (annotations\<lparr>a_headers := Some param_annotation\<rparr>) params
      else if param_name = ''match_info'' then
        extract_annotations_loop (annotations\<lparr>a_match_info := Some param_annotation\<rparr>) params
      else if param_name = ''query_params'' then
        extract_annotations_loop (annotations\<lparr>a_query_params := Some param_annotation\<rparr>) params
      else if param_name = ''body'' then
        extract_annotations_loop (annotations\<lparr>a_body := Some param_annotation\<rparr>) params
      else if param_name = ''response'' then
        extract_annotations_loop (annotations\<lparr>a_response := Some param_annotation\<rparr>) params
      else Inl (ExtractionTypeError (UnexpectedParameter param_name request_supported_params)))"

definition extract_annotations :: "handler_method \<Rightarrow> error + extracted_annotations" where
  "extract_annotations m =
     extract_annotations_loop
       \<lparr>a_headers = None, a_match_info = None, a_query_params = None, a_body = None,
        a_response = None\<rparr>
       (signature m)"

section \<open>Data extraction\<close>

text \<open>
  One block of \<open>_extract_data\<close>: \<open>if result: method_params[name] = result\<close>, else
  \<open>validation_errors[name] = validate_error\<close>. The test is the value's truthiness.
\<close>

type_synonym extracted_data =
  "(string \<times> py_object) list \<times> (string \<times> error_dict list option) list"

definition bind_surface :: "string \<Rightarrow> validation \<Rightarrow> extracted_data \<Rightarrow> extracted_data" where
  "bind_surface name v acc =
     (case (v, acc) of
        ((res, validate_error), (method_params, validation_errors)) \<Rightarrow>
          if truthy res then (AList.update name (Value res) method_params, validation_errors)
          else (method_params, AList.update name validate_error validation_errors))"

definition extract_surface ::
  "string \<Rightarrow> py_class option \<Rightarrow> (py_class \<Rightarrow> error + validation) \<Rightarrow> extracted_data
     \<Rightarrow> error + extracted_data" where
  "extract_surface name annotation validate acc =
     (case annotation of
        None \<Rightarrow> Inr acc
      | Some t \<Rightarrow> (case validate t of Inl e \<Rightarrow> Inl e | Inr v \<Rightarrow> Inr (bind_surface name v acc)))"

definition extract_data :: "request \<Rightarrow> extracted_annotations \<Rightarrow> error + extracted_data" where
  "extract_data req anns =
     (case extract_surface ''headers'' (a_headers anns) (validate_headers req) ([], []) of
        Inl e \<Rightarrow> Inl e
      | Inr acc1 \<Rightarrow>
     (case extract_surface ''match_info'' (a_match_info anns) (validate_match_info req) acc1 of
        Inl e \<Rightarrow> Inl e
      | Inr acc2 \<Rightarrow>
     (case extract_surface ''query_params'' (a_query_params anns) (validate_query_params req) acc2 of
        Inl e \<Rightarrow> Inl e
      | Inr acc3 \<Rightarrow>
          extract_surface ''body'' (a_body anns) (validate_body_data req) acc3)))"

section \<open>Response normalisation\<close>

datatype handler_response_enum_type = pydantic_model | web_response | another

fun get_handler_response_type :: "py_object \<Rightarrow> handler_response_enum_type" where
  "get_handler_response_type (Value (VModel kvs)) = pydantic_model"
| "get_handler_response_type (ResponseObj r) = web_response"
| "get_handler_response_type other = another"

text \<open>
  \<open>isinstance(x, int)\<close> holds for an \<open>int\<close> and for a \<open>bool\<close> (\<open>True\<close> is 1 as a status);
  \<open>issubclass(x, HTTPException)\<close> raises \<open>TypeError\<close> unless \<open>x\<close> is a class.
\<close>

definition get_handler_response_http_code :: "heap \<Rightarrow> nat option \<Rightarrow> py_object \<Rightarrow> error + int" where
  "get_handler_response_http_code h existing_response unchecked_http_code =
     (let from_indicator =
            (case unchecked_http_code of
               Value (VInt i) \<Rightarrow> Inr i
             | Value (VBool b) \<Rightarrow> Inr (if b then 1 else 0)
             | HTTPExceptionClass status_code \<Rightarrow> Inr status_code
             | OtherClass n \<Rightarrow> Inl UnexpectedHttpCodeError
             | _ \<Rightarrow> Inl UnexpectedHttpCodeError)
      in case existing_response of
           None \<Rightarrow> from_indicator
         | Some r \<Rightarrow>
             if status (objects h r) \<noteq> default_response_success_http_code
             then Inr (status (objects h r))
             else from_indicator)"

text \<open>
  What \<open>schema.json\<close> can encode: pydantic's encoder raises on an object it does not know.
\<close>

fun encodable :: "py_value \<Rightarrow> bool" where
  "encodable VNone = True"
| "encodable (VBool b) = True"
| "encodable (VInt i) = True"
| "encodable (VStr s) = True"
| "encodable (VList xs) = list_all encodable xs"
| "encodable (VDict kvs) = list_all encodable (map snd kvs)"
| "encodable (VModel kvs) = list_all encodable (map snd kvs)"
| "encodable (VObject n) = False"

definition return_json_response ::
  "nat \<Rightarrow> response_schema \<Rightarrow> int \<Rightarrow> heap \<Rightarrow> error + (nat \<times> heap)" where
  "return_json_response r schema st h =
     (if \<not> (case result schema of None \<Rightarrow> True | Some v \<Rightarrow> encodable v)
      then Inl CannotSerializeResponseError
      else
        (let resp1 = (objects h r)\<lparr>content_type := ''application/json''\<rparr>;
             resp2 = resp1\<lparr>body := JsonBody schema\<rparr>;
             resp3 = (if st \<noteq> 0 then resp2\<lparr>status := st\<rparr> else resp2)
         in Inr (r, h\<lparr>objects := (objects h)(r := resp3)\<rparr>)))"

definition handle_response ::
  "py_object \<Rightarrow> response_schema \<Rightarrow> nat option \<Rightarrow> heap \<Rightarrow> error + (nat \<times> heap)" where
  "handle_response method_response handler_response_schema annotated_response h =
     (case (case method_response of
              Tuple [payload, unchecked_response_http_code] \<Rightarrow>
                (case get_handler_response_http_code h annotated_response
                        unchecked_response_http_code of
                   Inl e \<Rightarrow> Inl e
                 | Inr code \<Rightarrow> Inr (payload, code))
            | Tuple other \<Rightarrow> Inl HandlerResultTypeError
            | _ \<Rightarrow> Inr (method_response, default_response_success_http_code)) of
        Inl e \<Rightarrow> Inl e
      | Inr (payload, response_http_code) \<Rightarrow>
          (case get_handler_response_type payload of
             pydantic_model \<Rightarrow>
               (case payload of
                  Value model \<Rightarrow>
                    (let schema = set_result handler_response_schema model;
                         (r, h1) = (case annotated_response of
                                      None \<Rightarrow> new_response h
                                    | Some a \<Rightarrow> (a, h))
                     in return_json_response r schema response_http_code h1)
                | _ \<Rightarrow> Inl UnhandledResponseTypeError)
           | web_response \<Rightarrow>
               (case payload of
                  ResponseObj p \<Rightarrow>
                    if annotated_response \<noteq> None \<and> annotated_response \<noteq> Some p
                    then Inl NotOriginalResponseError
                    else Inr (p, h)
                | _ \<Rightarrow> Inl UnhandledResponseTypeError)
           | another \<Rightarrow> Inl UnhandledResponseTypeError))"

section \<open>The pipeline\<close>

text \<open>
  What a request ends in: the response object returned, the heap it lives in, and the
  keyword arguments of every invocation of the handler method.
\<close>

record outcome =
  returned :: nat
  final_heap :: heap
  invoked_with :: "(string \<times> py_object) list list"

definition handle_incoming_request :: "view \<Rightarrow> heap \<Rightarrow> error + outcome" where
  "handle_incoming_request v h =
     (if req_method (request v) \<notin> set METH_ALL then Inl (raise_allowed_methods v)
      else
     (case get_handler_method v of
        Inl e \<Rightarrow> Inl e
      | Inr m \<Rightarrow>
     (case extract_annotations m of
        Inl e \<Rightarrow> Inl e
      | Inr anns \<Rightarrow>
     (case (case a_response anns of
              None \<Rightarrow> Inr (None, h)
            | Some c \<Rightarrow>
                if kind c = ResponseClass
                then (case new_response h of (r, h1) \<Rightarrow> Inr (Some r, h1))
                else Inl WrongAnnotatedWebResponseError) of
        Inl e \<Rightarrow> Inl e
      | Inr (response, h1) \<Rightarrow>
     (case extract_data (request v) anns of
        Inl e \<Rightarrow> Inl e
      | Inr (extracted_params, validate_errors) \<Rightarrow>
          (let handler_response_schema = \<lparr>errors = None, result = None\<rparr>;
               method_params =
                 (case response of
                    None \<Rightarrow> extracted_params
                  | Some r \<Rightarrow> AList.update ''response'' (ResponseObj r) extracted_params)
           in if validate_errors \<noteq> [] then
                (case new_response h1 of
                   (r, h2) \<Rightarrow>
                     (case return_json_response r
                             (set_client_error handler_response_schema validate_errors) 400 h2 of
                        Inl e \<Rightarrow> Inl e
                      | Inr (r', h3) \<Rightarrow>
                          Inr \<lparr>returned = r', final_heap = h3, invoked_with = []\<rparr>))
              else
                (case run m method_params h1 of
                   (method_response, h2) \<Rightarrow>
                     (case handle_response method_response handler_response_schema response h2 of
                        Inl e \<Rightarrow> Inl e
                      | Inr (r', h3) \<Rightarrow>
                          Inr \<lparr>returned = r', final_heap = h3,
                               invoked_with = [method_params]\<rparr>))))))))"

section \<open>Notions the properties are stated with\<close>






text \<open>
  The four data surfaces, the annotation a handler declares for each, and the validator
  \<open>_extract_data\<close> calls for it.
\<close>

datatype surface = Headers | MatchInfo | QueryParams | Body

fun surface_name :: "surface \<Rightarrow> string" where
  "surface_name Headers = ''headers''"
| "surface_name MatchInfo = ''match_info''"
| "surface_name QueryParams = ''query_params''"
| "surface_name Body = ''body''"

fun annotation_of :: "extracted_annotations \<Rightarrow> surface \<Rightarrow> py_class option" where
  "annotation_of anns Headers = a_headers anns"
| "annotation_of anns MatchInfo = a_match_info anns"
| "annotation_of anns QueryParams = a_query_params anns"
| "annotation_of anns Body = a_body anns"

fun validate_surface :: "request \<Rightarrow> surface \<Rightarrow> py_class \<Rightarrow> error + validation" where
  "validate_surface req Headers t = validate_headers req t"
| "validate_surface req MatchInfo t = validate_match_info req t"
| "validate_surface req QueryParams t = validate_query_params req t"
| "validate_surface req Body t = validate_body_data req t"

text \<open>
  No validator of a declared surface ends in an exception the source does not catch (a
  schema call that raises something other than \<open>ValidationError\<close>, a model-typed body
  that is not a mapping).
\<close>

definition validators_return :: "request \<Rightarrow> extracted_annotations \<Rightarrow> bool" where
  "validators_return req anns =
     list_all (\<lambda>s. case annotation_of anns s of
                      None \<Rightarrow> True
                    | Some t \<Rightarrow> \<not> isl (validate_surface req s t))
       [Headers, MatchInfo, QueryParams, Body]"


text \<open>\<open>isinstance(x, int)\<close>, with the integer \<open>x\<close> is.\<close>

fun as_int :: "py_object \<Rightarrow> int option" where
  "as_int (Value (VInt i)) = Some i"
| "as_int (Value (VBool b)) = Some (if b then 1 else 0)"
| "as_int other = None"

fun as_http_exception_class :: "py_object \<Rightarrow> int option" where
  "as_http_exception_class (HTTPExceptionClass c) = Some c"
| "as_http_exception_class other = None"

subsection \<open>Concrete requests, classes and handlers\<close>

definition empty_heap :: heap where
  "empty_heap =
     \<lparr>objects = (\<lambda>r. \<lparr>status = 200, content_type = ''application/octet-stream'', body = NoBody\<rparr>),
      next_ref = 0\<rparr>"

definition simple_request :: "string \<Rightarrow> (string \<times> string) list \<Rightarrow> string \<Rightarrow> py_value option \<Rightarrow> request" where
  "simple_request m hs t j =
     \<lparr>req_method = m, req_headers = hs, req_match_info = [], req_query = [], req_text = t,
      req_json = j\<rparr>"

text \<open>
  Python's \<open>int\<close> as a class: \<open>int(x)\<close> for an integer, a boolean or text (surrounding
  ASCII white space, a sign, decimal digits with single underscores between them), and
  \<open>int(**data)\<close>, which takes no keyword arguments of a request.
\<close>

definition is_digit :: "char \<Rightarrow> bool" where
  "is_digit c = (48 \<le> (of_char c :: nat) \<and> (of_char c :: nat) \<le> 57)"

definition is_space :: "char \<Rightarrow> bool" where
  "is_space c = ((of_char c :: nat) \<in> {9, 10, 11, 12, 13, 32})"

definition strip :: "string \<Rightarrow> string" where
  "strip s = rev (dropWhile is_space (rev (dropWhile is_space s)))"

fun underscores_ok :: "string \<Rightarrow> bool" where
  "underscores_ok (a # b # cs) =
     ((is_digit a \<or> (a = CHR ''_'' \<and> is_digit b)) \<and> underscores_ok (b # cs))"
| "underscores_ok [a] = is_digit a"
| "underscores_ok [] = False"

definition digits_value :: "string \<Rightarrow> nat" where
  "digits_value ds = foldl (\<lambda>acc c. 10 * acc + ((of_char c :: nat) - 48)) 0 (filter is_digit ds)"

definition int_of_text :: "string \<Rightarrow> int option" where
  "int_of_text s =
     (let t = strip s;
          (neg, ds) = (case t of
                         [] \<Rightarrow> (False, [])
                       | c # r \<Rightarrow> if c = CHR ''-'' then (True, r)
                                  else if c = CHR ''+'' then (False, r)
                                  else (False, t))
      in if ds \<noteq> [] \<and> is_digit (hd ds) \<and> underscores_ok ds
         then Some (if neg then - int (digits_value ds) else int (digits_value ds))
         else None)"

definition int_class :: py_class where
  "int_class =
     \<lparr>kind = PlainClass TInt,
      class_repr = ''<class 'int'>'',
      call_kw = (\<lambda>data. if data = [] then Returns (VInt 0) else RaisesTypeError),
      call_pos = (\<lambda>x. case x of
                         VInt i \<Rightarrow> Returns (VInt i)
                       | VBool b \<Rightarrow> Returns (VInt (if b then 1 else 0))
                       | VStr s \<Rightarrow> (case int_of_text s of
                                      Some i \<Rightarrow> Returns (VInt i)
                                    | None \<Rightarrow> RaisesValueError)
                       | _ \<Rightarrow> RaisesTypeError)\<rparr>"

text \<open>\<open>web.Response\<close> as an annotation; the pipeline never calls it with request data.\<close>

definition response_class :: py_class where
  "response_class =
     \<lparr>kind = ResponseClass,
      class_repr = ''<class 'aiohttp.web_response.Response'>'',
      call_kw = (\<lambda>data. RaisesTypeError),
      call_pos = (\<lambda>x. RaisesTypeError)\<rparr>"



definition body_int_handler :: handler_method where
  "body_int_handler =
     \<lparr>signature = [(''body'', Some int_class)], run = (\<lambda>params h. (Value (VModel []), h))\<rparr>"


definition forbidding_handler :: "py_object \<Rightarrow> handler_method" where
  "forbidding_handler ret =
     \<lparr>signature = [(''response'', Some response_class)],
      run = (\<lambda>params h. case map_of params ''response'' of
                           Some (ResponseObj r) \<Rightarrow>
                             (ret, h\<lparr>objects := (objects h)(r := (objects h r)\<lparr>status := 403\<rparr>)\<rparr>)
                         | _ \<Rightarrow> (ret, h))\<rparr>"

definition other_response_handler :: handler_method where
  "other_response_handler =
     \<lparr>signature = [(''response'', Some response_class)],
      run = (\<lambda>params h. case new_response h of (r, h1) \<Rightarrow> (ResponseObj r, h1))\<rparr>"

definition same_response_handler :: handler_method where
  "same_response_handler =
     \<lparr>signature = [(''response'', Some response_class)],
      run = (\<lambda>params h. case map_of params ''response'' of
                           Some resp \<Rightarrow> (resp, h)
                         | None \<Rightarrow> (Value VNone, h))\<rparr>"

definition get_view :: "handler_method \<Rightarrow> view" where
  "get_view m = \<lparr>request = simple_request ''GET'' [] [] None, attrs = [(''get'', m)]\<rparr>"

text \<open>
  What a run of the pipeline ends in, read off its outcome: the status and the body of the
  response returned.
\<close>

definition final_status :: "error + outcome \<Rightarrow> error + int" where
  "final_status r = map_sum id (\<lambda>out. status (objects (final_heap out) (returned out))) r"

definition final_body :: "error + outcome \<Rightarrow> error + response_body" where
  "final_body r = map_sum id (\<lambda>out. body (objects (final_heap out) (returned out))) r"

text \<open>A heap whose objects all have the given status; reference 0 is allocated.\<close>

definition heap_with_status :: "int \<Rightarrow> heap" where
  "heap_with_status s =
     \<lparr>objects = (\<lambda>r. \<lparr>status = s, content_type = ''application/octet-stream'', body = NoBody\<rparr>),
      next_ref = 1\<rparr>"

text \<open>
  No annotation declared; the views of the handlers above; the error a body fetch failure
  is turned into; the error pydantic reports for the missing field of \<open>auth_model\<close>.
\<close>

definition nothing_declared :: extracted_annotations where
  "nothing_declared =
     \<lparr>a_headers = None, a_match_info = None, a_query_params = None, a_body = None,
      a_response = None\<rparr>"


definition body_error :: "string \<Rightarrow> error_dict" where
  "body_error m = \<lparr>loc = [LocStr ''body''], msg = m, err_type = ''type_error.type''\<rparr>"


definition body_int_view :: "(string \<times> string) list \<Rightarrow> string \<Rightarrow> view" where
  "body_int_view hs t =
     \<lparr>request = simple_request ''POST'' hs t None, attrs = [(''post'', body_int_handler)]\<rparr>"

section \<open>Properties of the form parser\<close>






















section \<open>Method resolution\<close>

lemma lower_METH:
  "lower ''GET'' = ''get''" "lower ''POST'' = ''post''" "lower ''CONNECT'' = ''connect''"
  "lower ''HEAD'' = ''head''" "lower ''DELETE'' = ''delete''" "lower ''OPTIONS'' = ''options''"
  "lower ''PATCH'' = ''patch''" "lower ''PUT'' = ''put''" "lower ''TRACE'' = ''trace''"
  by code_simp+



section \<open>Status codes and response identity\<close>

lemma http_code_annotated:
  "status (objects h r) \<noteq> 200 \<Longrightarrow>
   get_handler_response_http_code h (Some r) ind = Inr (status (objects h r))"
  by (simp add: get_handler_response_http_code_def default_response_success_http_code_def)

lemma http_code_indicator:
  "existing = None \<or> (\<exists>r. existing = Some r \<and> status (objects h r) = 200) \<Longrightarrow>
   get_handler_response_http_code h existing ind =
     (case as_int ind of
        Some i \<Rightarrow> Inr i
      | None \<Rightarrow> (case as_http_exception_class ind of
                   Some c \<Rightarrow> Inr c
                 | None \<Rightarrow> Inl UnexpectedHttpCodeError))"
proof (cases ind)
  case (Value v)
  assume "existing = None \<or> (\<exists>r. existing = Some r \<and> status (objects h r) = 200)"
  then show ?thesis using Value
    by (cases v) (auto simp: get_handler_response_http_code_def
          default_response_success_http_code_def)
qed (auto simp: get_handler_response_http_code_def default_response_success_http_code_def)

lemma return_json_response_ok:
  "(case result schema of None \<Rightarrow> True | Some v \<Rightarrow> encodable v) \<Longrightarrow>
   return_json_response r schema st h =
     Inr (r, h\<lparr>objects := (objects h)(r :=
            \<lparr>status = (if st \<noteq> 0 then st else status (objects h r)),
             content_type = ''application/json'', body = JsonBody schema\<rparr>)\<rparr>)"
  by (cases "objects h r") (auto simp: return_json_response_def Let_def)

lemma handle_response_tuple:
  "handle_response (Tuple [payload, ind]) schema ann h =
     (case get_handler_response_http_code h ann ind of
        Inl e \<Rightarrow> Inl e
      | Inr code \<Rightarrow>
          (case payload of
             Value (VModel kvs) \<Rightarrow>
               (case (case ann of None \<Rightarrow> new_response h | Some a \<Rightarrow> (a, h)) of
                  (r, h1) \<Rightarrow> return_json_response r (set_result schema (VModel kvs)) code h1)
           | ResponseObj p \<Rightarrow>
               if ann \<noteq> None \<and> ann \<noteq> Some p then Inl NotOriginalResponseError else Inr (p, h)
           | _ \<Rightarrow> Inl UnhandledResponseTypeError))"
proof (cases "get_handler_response_http_code h ann ind")
  case (Inl e)
  then show ?thesis by (simp add: handle_response_def)
next
  case (Inr code)
  show ?thesis
  proof (cases payload)
    case (Value v)
    then show ?thesis using Inr by (cases v) (simp_all add: handle_response_def)
  qed (simp_all add: handle_response_def Inr)
qed

lemma handle_response_bare_model:
  "handle_response (Value (VModel kvs)) schema ann h =
     (case (case ann of None \<Rightarrow> new_response h | Some a \<Rightarrow> (a, h)) of
        (r, h1) \<Rightarrow> return_json_response r (set_result schema (VModel kvs)) 200 h1)"
  by (simp add: handle_response_def default_response_success_http_code_def)

lemma handle_response_bare_response:
  "handle_response (ResponseObj p) schema ann h =
     (if ann \<noteq> None \<and> ann \<noteq> Some p then Inl NotOriginalResponseError else Inr (p, h))"
  by (simp add: handle_response_def)

text \<open>
  C4. The status code of a handler result \<open>(payload, indicator)\<close> is resolved by
  precedence: the status of the annotated response when there is one and its status is
  not 200; otherwise the indicator when it is an integer; otherwise the status code of
  the indicator when it is an HTTP exception class; otherwise the fatal
  \<open>UnexpectedHttpCodeError\<close>, which ends the request. A model returned with 201 and no
  annotated response is answered with status 201; with an annotated response whose
  status was set to 403 it is answered with status 403.
\<close>

theorem status_code_precedence:
  "(\<forall>r. existing = Some r \<and> status (objects h r) \<noteq> 200 \<longrightarrow>
        get_handler_response_http_code h existing ind = Inr (status (objects h r))) \<and>
   (existing = None \<or> (\<exists>r. existing = Some r \<and> status (objects h r) = 200) \<longrightarrow>
        get_handler_response_http_code h existing ind =
          (case as_int ind of
             Some i \<Rightarrow> Inr i
           | None \<Rightarrow> (case as_http_exception_class ind of
                        Some c \<Rightarrow> Inr c
                      | None \<Rightarrow> Inl UnexpectedHttpCodeError))) \<and>
   (\<forall>e. get_handler_response_http_code h existing ind = Inl e \<longrightarrow>
        handle_response (Tuple [payload, ind]) schema existing h = Inl e) \<and>
   (list_all encodable (map snd kvs) \<longrightarrow>
        (\<exists>h'. handle_response (Tuple [Value (VModel kvs), Value (VInt 201)]) schema None h
                = Inr (next_ref h, h') \<and>
              status (objects h' (next_ref h)) = 201 \<and>
              body (objects h' (next_ref h)) = JsonBody (schema\<lparr>result := Some (VModel kvs)\<rparr>))) \<and>
   (list_all encodable (map snd kvs) \<and> status (objects h a) = 403 \<longrightarrow>
        (\<exists>h'. handle_response (Tuple [Value (VModel kvs), Value (VInt 201)]) schema (Some a) h
                = Inr (a, h') \<and>
              status (objects h' a) = 403))"
proof (intro conjI allI impI)
  fix r assume "existing = Some r \<and> status (objects h r) \<noteq> 200"
  then show "get_handler_response_http_code h existing ind = Inr (status (objects h r))"
    by (simp add: http_code_annotated)
next
  assume "existing = None \<or> (\<exists>r. existing = Some r \<and> status (objects h r) = 200)"
  then show "get_handler_response_http_code h existing ind =
          (case as_int ind of
             Some i \<Rightarrow> Inr i
           | None \<Rightarrow> (case as_http_exception_class ind of
                        Some c \<Rightarrow> Inr c
                      | None \<Rightarrow> Inl UnexpectedHttpCodeError))"
    by (rule http_code_indicator)
next
  fix e assume "get_handler_response_http_code h existing ind = Inl e"
  then show "handle_response (Tuple [payload, ind]) schema existing h = Inl e"
    by (simp add: handle_response_tuple)
next
  assume enc: "list_all encodable (map snd kvs)"
  have code: "get_handler_response_http_code h None (Value (VInt 201)) = Inr 201"
    by (simp add: http_code_indicator)
  show "\<exists>h'. handle_response (Tuple [Value (VModel kvs), Value (VInt 201)]) schema None h
                = Inr (next_ref h, h') \<and>
              status (objects h' (next_ref h)) = 201 \<and>
              body (objects h' (next_ref h)) = JsonBody (schema\<lparr>result := Some (VModel kvs)\<rparr>)"
    using enc
    by (simp add: handle_response_tuple code new_response_def return_json_response_ok
          set_result_def)
next
  assume "list_all encodable (map snd kvs) \<and> status (objects h a) = 403"
  then have enc: "list_all encodable (map snd kvs)" and st: "status (objects h a) = 403"
    by simp_all
  have code: "get_handler_response_http_code h (Some a) (Value (VInt 201)) = Inr 403"
    using http_code_annotated [of h a] st by simp
  show "\<exists>h'. handle_response (Tuple [Value (VModel kvs), Value (VInt 201)]) schema (Some a) h
                = Inr (a, h') \<and> status (objects h' a) = 403"
    using enc
    by (simp add: handle_response_tuple code return_json_response_ok set_result_def)
qed

theorem status_code_precedence_witness:
  "status (objects (heap_with_status 403) 0) \<noteq> 200 \<and>
   get_handler_response_http_code (heap_with_status 403) (Some 0) (Value (VInt 201)) = Inr 403 \<and>
   status (objects (heap_with_status 200) 0) = 200 \<and>
   get_handler_response_http_code (heap_with_status 200) (Some 0) (Value (VInt 201)) = Inr 201 \<and>
   get_handler_response_http_code (heap_with_status 200) (Some 0) (HTTPExceptionClass 404) = Inr 404 \<and>
   get_handler_response_http_code (heap_with_status 200) (Some 0) (Value (VStr ''201''))
     = Inl UnexpectedHttpCodeError \<and>
   handle_response (Tuple [Value (VModel []), Value (VStr ''201'')]) \<lparr>errors = None, result = None\<rparr>
       (Some 0) (heap_with_status 200) = Inl UnexpectedHttpCodeError \<and>
   list_all encodable (map snd [(''id'', VInt 7)]) \<and>
   (\<exists>h'. handle_response (Tuple [Value (VModel [(''id'', VInt 7)]), Value (VInt 201)])
            \<lparr>errors = None, result = None\<rparr> None empty_heap = Inr (0, h') \<and>
         status (objects h' 0) = 201 \<and>
         body (objects h' 0) = JsonBody \<lparr>errors = None, result = Some (VModel [(''id'', VInt 7)])\<rparr>) \<and>
   (\<exists>h'. handle_response (Tuple [Value (VModel [(''id'', VInt 7)]), Value (VInt 201)])
            \<lparr>errors = None, result = None\<rparr> (Some 0) (heap_with_status 403) = Inr (0, h') \<and>
         status (objects h' 0) = 403)"
proof -
  let ?s = "\<lparr>errors = None, result = None\<rparr>"
  let ?kvs = "[(''id'', VInt 7)]"
  have a: "status (objects (heap_with_status 403) 0) \<noteq> 200"
    and b: "status (objects (heap_with_status 200) 0) = 200"
    and c: "list_all encodable (map snd ?kvs)"
    and d: "status (objects (heap_with_status 403) 0) = 403"
    by (simp_all add: heap_with_status_def)
  have n: "next_ref empty_heap = 0" by (simp add: empty_heap_def)
  note p403 = status_code_precedence [of "Some 0" "heap_with_status 403" "Value (VInt 201)"
      "Value (VModel [])" ?s ?kvs 0]
  note p200 = status_code_precedence [of "Some 0" "heap_with_status 200" _ "Value (VModel [])" ?s
      ?kvs 0]
  note pnone = status_code_precedence [of None empty_heap "Value (VInt 201)" "Value (VModel [])" ?s
      ?kvs 0]
  have 1: "get_handler_response_http_code (heap_with_status 403) (Some 0) (Value (VInt 201)) = Inr 403"
    using p403 a d by simp
  have 2: "get_handler_response_http_code (heap_with_status 200) (Some 0) (Value (VInt 201)) = Inr 201"
    using p200 [of "Value (VInt 201)"] b by simp
  have 3: "get_handler_response_http_code (heap_with_status 200) (Some 0) (HTTPExceptionClass 404) = Inr 404"
    using p200 [of "HTTPExceptionClass 404"] b by simp
  have 4: "get_handler_response_http_code (heap_with_status 200) (Some 0) (Value (VStr ''201''))
             = Inl UnexpectedHttpCodeError"
    using p200 [of "Value (VStr ''201'')"] b by simp
  have 5: "handle_response (Tuple [Value (VModel []), Value (VStr ''201'')]) ?s
       (Some 0) (heap_with_status 200) = Inl UnexpectedHttpCodeError"
    using p200 [of "Value (VStr ''201'')"] 4 by simp
  have 6: "\<exists>h'. handle_response (Tuple [Value (VModel ?kvs), Value (VInt 201)]) ?s None empty_heap
                  = Inr (0, h') \<and> status (objects h' 0) = 201 \<and>
                body (objects h' 0) = JsonBody \<lparr>errors = None, result = Some (VModel ?kvs)\<rparr>"
    using pnone c n by simp
  have 7: "\<exists>h'. handle_response (Tuple [Value (VModel ?kvs), Value (VInt 201)]) ?s (Some 0)
                  (heap_with_status 403) = Inr (0, h') \<and> status (objects h' 0) = 403"
    using p403 c d by simp
  show ?thesis using a b c 1 2 3 4 5 6 7 by blast
qed

text \<open>
  C9, as the code has it. For a handler result \<open>(payload, indicator)\<close> whose indicator is
  an instance of an HTTP exception class, the pipeline raises the fatal
  \<open>UnexpectedHttpCodeError\<close> when there is no annotated response or its status is still
  200; when the annotated response has another status, that status is the resolved code
  and the indicator is not looked at.
\<close>

theorem exception_instance_indicator:
  "(existing = None \<or> (\<exists>r. existing = Some r \<and> status (objects h r) = 200) \<longrightarrow>
      handle_response (Tuple [payload, HTTPExceptionInstance c]) schema existing h
        = Inl UnexpectedHttpCodeError) \<and>
   (\<forall>r. existing = Some r \<and> status (objects h r) \<noteq> 200 \<longrightarrow>
      get_handler_response_http_code h existing (HTTPExceptionInstance c)
        = Inr (status (objects h r)))"
proof (intro conjI allI impI)
  assume "existing = None \<or> (\<exists>r. existing = Some r \<and> status (objects h r) = 200)"
  then have "get_handler_response_http_code h existing (HTTPExceptionInstance c)
               = Inl UnexpectedHttpCodeError"
    by (simp add: http_code_indicator)
  then show "handle_response (Tuple [payload, HTTPExceptionInstance c]) schema existing h
               = Inl UnexpectedHttpCodeError"
    by (simp add: handle_response_tuple)
next
  fix r assume "existing = Some r \<and> status (objects h r) \<noteq> 200"
  then show "get_handler_response_http_code h existing (HTTPExceptionInstance c)
               = Inr (status (objects h r))"
    by (simp add: http_code_annotated)
qed

theorem exception_instance_indicator_witness:
  "handle_response (Tuple [Value (VModel []), HTTPExceptionInstance 404])
       \<lparr>errors = None, result = None\<rparr> None empty_heap = Inl UnexpectedHttpCodeError \<and>
   status (objects (heap_with_status 403) 0) \<noteq> 200 \<and>
   get_handler_response_http_code (heap_with_status 403) (Some 0) (HTTPExceptionInstance 404)
     = Inr 403"
proof -
  have a: "status (objects (heap_with_status 403) 0) \<noteq> 200"
    and d: "status (objects (heap_with_status 403) 0) = 403"
    by (simp_all add: heap_with_status_def)
  have 1: "handle_response (Tuple [Value (VModel []), HTTPExceptionInstance 404])
       \<lparr>errors = None, result = None\<rparr> None empty_heap = Inl UnexpectedHttpCodeError"
    using exception_instance_indicator [of None empty_heap "Value (VModel [])" 404
        "\<lparr>errors = None, result = None\<rparr>"]
    by simp
  have 2: "get_handler_response_http_code (heap_with_status 403) (Some 0) (HTTPExceptionInstance 404)
     = Inr 403"
    using exception_instance_indicator [of "Some 0" "heap_with_status 403" "Value (VModel [])" 404
        "\<lparr>errors = None, result = None\<rparr>"] a d
    by simp
  show ?thesis using a 1 2 by simp
qed

lemma run_forbidding:
  "handle_incoming_request (get_view (forbidding_handler ret)) empty_heap =
     (case handle_response ret \<lparr>errors = None, result = None\<rparr> (Some 0)
             \<lparr>objects = (objects empty_heap)(0 :=
                 \<lparr>status = 403, content_type = ''application/octet-stream'', body = NoBody\<rparr>),
              next_ref = 1\<rparr> of
        Inl e \<Rightarrow> Inl e
      | Inr (r', h3) \<Rightarrow>
          Inr \<lparr>returned = r', final_heap = h3,
               invoked_with = [[(''response'', ResponseObj 0)]]\<rparr>)"
  by (simp add: handle_incoming_request_def get_view_def simple_request_def METH_ALL_def
        get_handler_method_def lower_METH forbidding_handler_def
        extract_annotations_def response_class_def new_response_def empty_heap_def
        extract_data_def extract_surface_def)

theorem exception_instance_counterexample:
  "final_status (handle_incoming_request
      (get_view (forbidding_handler (Tuple [Value (VModel []), HTTPExceptionInstance 404])))
      empty_heap) = Inr 403"
  by (simp add: run_forbidding handle_response_tuple http_code_annotated
        return_json_response_ok set_result_def final_status_def)

text \<open>
  C5. A handler that is given the injected response, sets its status to 403 and returns a
  bare model is answered with status 200: \<open>_return_json_response\<close> sets the default 200
  over the status the handler chose.
\<close>

theorem bare_model_overwrites_status:
  "final_status (handle_incoming_request
      (get_view (forbidding_handler (Value (VModel [])))) empty_heap) = Inr 200"
  by (simp add: run_forbidding handle_response_bare_model
        return_json_response_ok set_result_def final_status_def)

text \<open>
  C6. When a response object was injected and the handler returns a response object (bare,
  or in a tuple whose status indicator resolves), \<open>_handle_response\<close> raises
  \<open>NotOriginalResponseError\<close> exactly when the returned object is not the injected one; the
  injected one is returned as it is, in an unchanged heap.
\<close>

theorem original_response_required:
  "(handle_response (ResponseObj p) schema (Some a) h = Inl NotOriginalResponseError \<longleftrightarrow> p \<noteq> a) \<and>
   (p = a \<longrightarrow> handle_response (ResponseObj p) schema (Some a) h = Inr (p, h)) \<and>
   (get_handler_response_http_code h (Some a) ind = Inr code \<longrightarrow>
      (handle_response (Tuple [ResponseObj p, ind]) schema (Some a) h
         = Inl NotOriginalResponseError \<longleftrightarrow> p \<noteq> a) \<and>
      (p = a \<longrightarrow> handle_response (Tuple [ResponseObj p, ind]) schema (Some a) h = Inr (p, h)))"
  by (auto simp: handle_response_bare_response handle_response_tuple)

theorem original_response_required_witness:
  "handle_response (ResponseObj 1) \<lparr>errors = None, result = None\<rparr> (Some 0) (heap_with_status 200)
     = Inl NotOriginalResponseError \<and>
   handle_response (ResponseObj 0) \<lparr>errors = None, result = None\<rparr> (Some 0) (heap_with_status 200)
     = Inr (0, heap_with_status 200) \<and>
   get_handler_response_http_code (heap_with_status 200) (Some 0) (Value (VInt 201)) = Inr 201 \<and>
   handle_response (Tuple [ResponseObj 1, Value (VInt 201)]) \<lparr>errors = None, result = None\<rparr>
       (Some 0) (heap_with_status 200) = Inl NotOriginalResponseError \<and>
   handle_response (Tuple [ResponseObj 0, Value (VInt 201)]) \<lparr>errors = None, result = None\<rparr>
       (Some 0) (heap_with_status 200) = Inr (0, heap_with_status 200)"
proof -
  let ?s = "\<lparr>errors = None, result = None\<rparr>"
  have code: "get_handler_response_http_code (heap_with_status 200) (Some 0) (Value (VInt 201))
                = Inr 201"
    by (simp add: http_code_indicator heap_with_status_def)
  show ?thesis
    using original_response_required [of 1 ?s 0 "heap_with_status 200" "Value (VInt 201)" 201]
      original_response_required [of 0 ?s 0 "heap_with_status 200" "Value (VInt 201)" 201] code
    by simp
qed

lemma pipeline_other_response:
  "handle_incoming_request (get_view other_response_handler) empty_heap
     = Inl NotOriginalResponseError"
  by (simp add: handle_incoming_request_def get_view_def simple_request_def METH_ALL_def
        get_handler_method_def lower_METH other_response_handler_def
        extract_annotations_def response_class_def new_response_def empty_heap_def
        extract_data_def extract_surface_def handle_response_bare_response)

lemma pipeline_same_response:
  "map_sum id returned (handle_incoming_request (get_view same_response_handler) empty_heap)
     = Inr 0"
  by (simp add: handle_incoming_request_def get_view_def simple_request_def METH_ALL_def
        get_handler_method_def lower_METH same_response_handler_def
        extract_annotations_def response_class_def new_response_def empty_heap_def
        extract_data_def extract_surface_def handle_response_bare_response)

section \<open>Data extraction and validation failures\<close>

lemma extract_surface_cases:
  "extract_surface name ann validate (mp, ve) =
     (case ann of
        None \<Rightarrow> Inr (mp, ve)
      | Some t \<Rightarrow>
          (case validate t of
             Inl e \<Rightarrow> Inl e
           | Inr (res, err) \<Rightarrow>
               if truthy res then Inr (AList.update name (Value res) mp, ve)
               else Inr (mp, AList.update name err ve)))"
  by (simp add: extract_surface_def bind_surface_def split: option.splits sum.splits prod.splits)

lemma extract_surface_post:
  assumes "case ann of None \<Rightarrow> True | Some t \<Rightarrow> \<not> isl (validate t)"
  shows "\<exists>acc'. extract_surface name ann validate acc = Inr acc' \<and>
          (distinct (map fst (snd acc)) \<longrightarrow> distinct (map fst (snd acc'))) \<and>
          (\<forall>k. k \<noteq> name \<longrightarrow> map_of (snd acc') k = map_of (snd acc) k) \<and>
          (\<forall>t res err. ann = Some t \<and> validate t = Inr (res, err) \<and> \<not> truthy res \<longrightarrow>
               map_of (snd acc') name = Some err)"
proof (cases acc)
  case (Pair mp ve)
  show ?thesis
  proof (cases ann)
    case None
    then show ?thesis by (simp add: Pair extract_surface_cases)
  next
    case (Some t)
    with assms obtain res err where v: "validate t = Inr (res, err)"
      by (cases "validate t") auto
    show ?thesis
      by (simp add: Pair Some v extract_surface_cases distinct_update update_conv')
  qed
qed

lemma validators_return_each:
  assumes "validators_return req anns"
  shows "case a_headers anns of None \<Rightarrow> True | Some t \<Rightarrow> \<not> isl (validate_headers req t)"
    and "case a_match_info anns of None \<Rightarrow> True | Some t \<Rightarrow> \<not> isl (validate_match_info req t)"
    and "case a_query_params anns of None \<Rightarrow> True | Some t \<Rightarrow> \<not> isl (validate_query_params req t)"
    and "case a_body anns of None \<Rightarrow> True | Some t \<Rightarrow> \<not> isl (validate_body_data req t)"
  using assms by (auto simp: validators_return_def split: option.splits)

lemma extract_data_entries:
  assumes ret: "validators_return req anns"
  shows "\<exists>mp ve. extract_data req anns = Inr (mp, ve) \<and> distinct (map fst ve) \<and>
           (\<forall>s t res err. annotation_of anns s = Some t \<and>
                validate_surface req s t = Inr (res, err) \<and> \<not> truthy res \<longrightarrow>
                map_of ve (surface_name s) = Some err)"
proof -
  have d0: "distinct (map fst (snd (([], []) :: extracted_data)))" by simp
  from extract_surface_post [OF validators_return_each(1) [OF ret], of "''headers''" "([], [])"] d0
  obtain acc1 where a1: "extract_surface ''headers'' (a_headers anns) (validate_headers req) ([], []) = Inr acc1"
    and d1: "distinct (map fst (snd acc1))"
    and h1: "\<forall>t res err. a_headers anns = Some t \<and> validate_headers req t = Inr (res, err) \<and>
               \<not> truthy res \<longrightarrow> map_of (snd acc1) ''headers'' = Some err"
    by blast
  from extract_surface_post [OF validators_return_each(2) [OF ret], of "''match_info''" acc1] d1
  obtain acc2 where a2: "extract_surface ''match_info'' (a_match_info anns) (validate_match_info req) acc1 = Inr acc2"
    and d2: "distinct (map fst (snd acc2))"
    and k2: "\<forall>k. k \<noteq> ''match_info'' \<longrightarrow> map_of (snd acc2) k = map_of (snd acc1) k"
    and h2: "\<forall>t res err. a_match_info anns = Some t \<and> validate_match_info req t = Inr (res, err) \<and>
               \<not> truthy res \<longrightarrow> map_of (snd acc2) ''match_info'' = Some err"
    by blast
  from extract_surface_post [OF validators_return_each(3) [OF ret], of "''query_params''" acc2] d2
  obtain acc3 where a3: "extract_surface ''query_params'' (a_query_params anns) (validate_query_params req) acc2 = Inr acc3"
    and d3: "distinct (map fst (snd acc3))"
    and k3: "\<forall>k. k \<noteq> ''query_params'' \<longrightarrow> map_of (snd acc3) k = map_of (snd acc2) k"
    and h3: "\<forall>t res err. a_query_params anns = Some t \<and> validate_query_params req t = Inr (res, err) \<and>
               \<not> truthy res \<longrightarrow> map_of (snd acc3) ''query_params'' = Some err"
    by blast
  from extract_surface_post [OF validators_return_each(4) [OF ret], of "''body''" acc3] d3
  obtain acc4 where a4: "extract_surface ''body'' (a_body anns) (validate_body_data req) acc3 = Inr acc4"
    and d4: "distinct (map fst (snd acc4))"
    and k4: "\<forall>k. k \<noteq> ''body'' \<longrightarrow> map_of (snd acc4) k = map_of (snd acc3) k"
    and h4: "\<forall>t res err. a_body anns = Some t \<and> validate_body_data req t = Inr (res, err) \<and>
               \<not> truthy res \<longrightarrow> map_of (snd acc4) ''body'' = Some err"
    by blast
  have e: "extract_data req anns = Inr (fst acc4, snd acc4)"
    by (simp add: extract_data_def a1 a2 a3 a4)
  have "map_of (snd acc4) (surface_name s) = Some err"
    if "annotation_of anns s = Some t" "validate_surface req s t = Inr (res, err)" "\<not> truthy res"
    for s t res err
  proof (cases s)
    case Headers
    with that h1 have "map_of (snd acc1) ''headers'' = Some err" by auto
    then show ?thesis using k2 k3 k4 Headers by simp
  next
    case MatchInfo
    with that h2 have "map_of (snd acc2) ''match_info'' = Some err" by auto
    then show ?thesis using k3 k4 MatchInfo by simp
  next
    case QueryParams
    with that h3 have "map_of (snd acc3) ''query_params'' = Some err" by auto
    then show ?thesis using k4 QueryParams by simp
  next
    case Body
    with that h4 show ?thesis by auto
  qed
  with e d4 show ?thesis by blast
qed

lemma checked_errors:
  "checked r = Inr (res, Some es) \<Longrightarrow> res = VNone \<and> es \<noteq> []"
  by (auto simp: checked_def split: sum.splits prod.splits if_splits)

lemma validate_body_data_errors:
  "validate_body_data req t = Inr (res, Some es) \<Longrightarrow> res = VNone \<and> es \<noteq> []"
  by (auto simp: validate_body_data_def gef_pydantic_like_answer_by_custom_message_def
        gef_pydantic_like_answer_by_class_type_error_def Let_def
        dest: checked_errors
        split: sum.splits error.splits py_value.splits if_splits call_outcome.splits)

lemma validate_surface_errors:
  "validate_surface req s t = Inr (res, Some es) \<Longrightarrow> res = VNone \<and> es \<noteq> []"
  by (cases s)
     (auto simp: validate_headers_def validate_match_info_def validate_query_params_def
        dest: checked_errors validate_body_data_errors)

lemma update_fresh: "k \<notin> fst ` set al \<Longrightarrow> AList.update k v al = al @ [(k, v)]"
  by (induction al) auto

lemma fold_update_distinct:
  "distinct (map fst (a @ b)) \<Longrightarrow> fold (\<lambda>(k, v) d. AList.update k v d) b a = a @ b"
proof (induction b arbitrary: a)
  case Nil
  then show ?case by simp
next
  case (Cons p b)
  obtain k v where p: "p = (k, v)" by (cases p)
  from Cons.prems have fresh: "k \<notin> fst ` set a" by (auto simp: p)
  from Cons.prems have "distinct (map fst ((a @ [(k, v)]) @ b))" by (auto simp: p)
  from Cons.IH [OF this] show ?case by (simp add: p update_fresh [OF fresh])
qed

lemma dict_union_empty: "distinct (map fst b) \<Longrightarrow> dict_union [] b = b"
  using fold_update_distinct [of "[]" b] by (simp add: dict_union_def)

lemma single_entry:
  "distinct (map fst E) \<Longrightarrow> map_of E k = Some x \<Longrightarrow> filter (\<lambda>e. fst e = k) E = [(k, x)]"
proof (induction E)
  case Nil
  then show ?case by simp
next
  case (Cons e E)
  show ?case
  proof (cases "fst e = k")
    case True
    with Cons.prems have "k \<notin> fst ` set E" and "e = (k, x)" by (auto simp: rev_image_eqI)
    then have "filter (\<lambda>e. fst e = k) E = []" by (auto simp: filter_empty_conv)
    with True \<open>e = (k, x)\<close> show ?thesis by simp
  next
    case False
    with Cons show ?thesis by (cases e) auto
  qed
qed

lemma pipeline_400:
  assumes meth: "req_method (request v) \<in> set METH_ALL"
    and gm: "get_handler_method v = Inr m"
    and ea: "extract_annotations m = Inr anns"
    and ra: "\<forall>c. a_response anns = Some c \<longrightarrow> kind c = ResponseClass"
    and ed: "extract_data (request v) anns = Inr (mp, ve)"
    and ne: "ve \<noteq> []"
    and dist: "distinct (map fst ve)"
  shows "\<exists>out. handle_incoming_request v h = Inr out \<and> invoked_with out = [] \<and>
           status (objects (final_heap out) (returned out)) = 400 \<and>
           body (objects (final_heap out) (returned out))
             = JsonBody \<lparr>errors = Some ve, result = None\<rparr>"
proof -
  have sc: "set_client_error \<lparr>errors = None, result = None\<rparr> ve = \<lparr>errors = Some ve, result = None\<rparr>"
    by (simp add: set_client_error_def dict_union_empty [OF dist])
  show ?thesis
  proof (cases "a_response anns")
    case None
    then show ?thesis
      using meth gm ea ed ne
      by (simp add: handle_incoming_request_def sc new_response_def return_json_response_ok)
  next
    case (Some c)
    with ra have "kind c = ResponseClass" by simp
    then show ?thesis
      using meth gm ea ed ne Some
      by (simp add: handle_incoming_request_def sc new_response_def return_json_response_ok)
  qed
qed

lemma failing_surfaces_answered:
  assumes meth: "req_method (request v) \<in> set METH_ALL"
    and gm: "get_handler_method v = Inr m"
    and ea: "extract_annotations m = Inr anns"
    and ra: "\<forall>c. a_response anns = Some c \<longrightarrow> kind c = ResponseClass"
    and ret: "validators_return (request v) anns"
    and ann0: "annotation_of anns s0 = Some t0"
    and fail0: "validate_surface (request v) s0 t0 = Inr (res0, Some es0)"
  shows "\<exists>out E. handle_incoming_request v h = Inr out \<and> invoked_with out = [] \<and>
           status (objects (final_heap out) (returned out)) = 400 \<and>
           body (objects (final_heap out) (returned out))
             = JsonBody \<lparr>errors = Some E, result = None\<rparr> \<and>
           (\<forall>s t res es. annotation_of anns s = Some t \<and>
                validate_surface (request v) s t = Inr (res, Some es) \<longrightarrow>
                filter (\<lambda>e. fst e = surface_name s) E = [(surface_name s, Some es)])"
proof -
  from extract_data_entries [OF ret] obtain mp ve
    where ed: "extract_data (request v) anns = Inr (mp, ve)"
      and dist: "distinct (map fst ve)"
      and ent: "\<forall>s t res err. annotation_of anns s = Some t \<and>
                validate_surface (request v) s t = Inr (res, err) \<and> \<not> truthy res \<longrightarrow>
                map_of ve (surface_name s) = Some err"
    by blast
  have entry: "filter (\<lambda>e. fst e = surface_name s) ve = [(surface_name s, Some es)]"
    if "annotation_of anns s = Some t" "validate_surface (request v) s t = Inr (res, Some es)"
    for s t res es
  proof -
    from validate_surface_errors [OF that(2)] have "\<not> truthy res" by simp
    with ent that have "map_of ve (surface_name s) = Some (Some es)" by blast
    with dist show ?thesis by (rule single_entry)
  qed
  from entry [OF ann0 fail0] have ne: "ve \<noteq> []" by auto
  from pipeline_400 [OF meth gm ea ra ed ne dist, of h] entry show ?thesis by blast
qed

lemma validate_body_data_fetch_errors:
  assumes "(request_content_type req = None \<and> m = ''missing Content-Type header'') \<or>
           (\<exists>ct. request_content_type req = Some ct \<and>
                 ct \<notin> {''application/json'', ''text/plain'', ''application/x-www-form-urlencoded''} \<and>
                 m = ''cannot fetch body data. Content-Type '' @ [CHR 0x27] @ ct @ [CHR 0x27]
                       @ '' not allowed here.'') \<or>
           (request_content_type req = Some ''application/json'' \<and> req_json req = None \<and>
            m = ''body is not a json'')"
  shows "validate_body_data req t = Inr (VNone, Some [body_error m])"
  using assms
  by (auto simp: validate_body_data_def fetch_body_data_def body_error_def
        gef_pydantic_like_answer_by_custom_message_def get_unknown_pydantic_type_error_def)







text \<open>
  C8. For a request whose handler declares a body: when the request has no content type,
  when its content type is none of \<open>application/json\<close>, \<open>text/plain\<close> and
  \<open>application/x-www-form-urlencoded\<close>, and when it is \<open>application/json\<close> and the body
  does not parse, body validation yields the single error located at \<open>body\<close> with the
  message \<open>missing Content-Type header\<close>, the message naming the content type, or
  \<open>body is not a json\<close>; the pipeline does not invoke the handler and returns a response
  with status 400 whose envelope holds that error under \<open>body\<close>.
\<close>

theorem body_fetch_errors_answered_400:
  assumes "req_method (request v) \<in> set METH_ALL"
    and "get_handler_method v = Inr hm"
    and "extract_annotations hm = Inr anns"
    and "\<forall>c. a_response anns = Some c \<longrightarrow> kind c = ResponseClass"
    and "a_body anns = Some t"
    and "\<forall>c. a_headers anns = Some c \<longrightarrow> \<not> isl (validate_headers (request v) c)"
    and "\<forall>c. a_match_info anns = Some c \<longrightarrow> \<not> isl (validate_match_info (request v) c)"
    and "\<forall>c. a_query_params anns = Some c \<longrightarrow> \<not> isl (validate_query_params (request v) c)"
    and "(request_content_type (request v) = None \<and> m = ''missing Content-Type header'') \<or>
         (\<exists>ct. request_content_type (request v) = Some ct \<and>
               ct \<notin> {''application/json'', ''text/plain'', ''application/x-www-form-urlencoded''} \<and>
               m = ''cannot fetch body data. Content-Type '' @ [CHR 0x27] @ ct @ [CHR 0x27]
                     @ '' not allowed here.'') \<or>
         (request_content_type (request v) = Some ''application/json'' \<and>
          req_json (request v) = None \<and> m = ''body is not a json'')"
  shows "validate_body_data (request v) t = Inr (VNone, Some [body_error m]) \<and>
         (\<exists>out E. handle_incoming_request v h = Inr out \<and> invoked_with out = [] \<and>
            status (objects (final_heap out) (returned out)) = 400 \<and>
            body (objects (final_heap out) (returned out))
              = JsonBody \<lparr>errors = Some E, result = None\<rparr> \<and>
            filter (\<lambda>e. fst e = ''body'') E = [(''body'', Some [body_error m])])"
proof -
  have vb: "validate_body_data (request v) t = Inr (VNone, Some [body_error m])"
    using assms(9) by (rule validate_body_data_fetch_errors)
  have ret: "validators_return (request v) anns"
    using assms(5-8) vb by (auto simp: validators_return_def split: option.splits)
  have ab: "annotation_of anns Body = Some t" using assms(5) by simp
  have vs: "validate_surface (request v) Body t = Inr (VNone, Some [body_error m])"
    using vb by simp
  from failing_surfaces_answered [OF assms(1-4) ret ab vs, of h]
  obtain out E where o: "handle_incoming_request v h = Inr out" "invoked_with out = []"
      "status (objects (final_heap out) (returned out)) = 400"
      "body (objects (final_heap out) (returned out)) = JsonBody \<lparr>errors = Some E, result = None\<rparr>"
    and all: "\<forall>s t res es. annotation_of anns s = Some t \<and>
                validate_surface (request v) s t = Inr (res, Some es) \<longrightarrow>
                filter (\<lambda>e. fst e = surface_name s) E = [(surface_name s, Some es)]"
    by blast
  from all ab vs have "filter (\<lambda>e. fst e = ''body'') E = [(''body'', Some [body_error m])]"
    by fastforce
  with vb o show ?thesis by blast
qed

lemma body_int_annotations:
  "extract_annotations body_int_handler = Inr (nothing_declared\<lparr>a_body := Some int_class\<rparr>)"
  by (simp add: extract_annotations_def body_int_handler_def nothing_declared_def)

lemma body_int_view_facts:
  "req_method (request (body_int_view hs t)) \<in> set METH_ALL"
  "get_handler_method (body_int_view hs t) = Inr body_int_handler"
  by (simp_all add: body_int_view_def simple_request_def METH_ALL_def get_handler_method_def
        lower_METH)

lemma content_type_examples:
  "request_content_type (simple_request m [] t j) = None"
  "request_content_type (simple_request m [(''Content-Type'', ''text/xml'')] t j) = Some ''text/xml''"
  "request_content_type (simple_request m [(''Content-Type'', ''text/plain'')] t j) = Some ''text/plain''"
  "request_content_type (simple_request m [(''content-type'', ''application/json'')] t j)
     = Some ''application/json''"
proof -
  have l: "lower ''Content-Type'' = ''content-type''" "lower ''content-type'' = ''content-type''"
    by code_simp+
  show "request_content_type (simple_request m [] t j) = None"
    "request_content_type (simple_request m [(''Content-Type'', ''text/xml'')] t j) = Some ''text/xml''"
    "request_content_type (simple_request m [(''Content-Type'', ''text/plain'')] t j) = Some ''text/plain''"
    "request_content_type (simple_request m [(''content-type'', ''application/json'')] t j)
       = Some ''application/json''"
    by (simp_all add: request_content_type_def multidict_get_def simple_request_def
          CONTENT_TYPE_def l)
qed

theorem body_fetch_errors_answered_400_witness:
  "(\<exists>out E. handle_incoming_request (body_int_view [] ''7'') empty_heap = Inr out \<and>
       invoked_with out = [] \<and>
       status (objects (final_heap out) (returned out)) = 400 \<and>
       body (objects (final_heap out) (returned out))
         = JsonBody \<lparr>errors = Some E, result = None\<rparr> \<and>
       filter (\<lambda>e. fst e = ''body'') E
         = [(''body'', Some [body_error ''missing Content-Type header''])]) \<and>
   (\<exists>out E. handle_incoming_request (body_int_view [(''Content-Type'', ''text/xml'')] ''7'')
                empty_heap = Inr out \<and>
       invoked_with out = [] \<and>
       status (objects (final_heap out) (returned out)) = 400 \<and>
       body (objects (final_heap out) (returned out))
         = JsonBody \<lparr>errors = Some E, result = None\<rparr> \<and>
       filter (\<lambda>e. fst e = ''body'') E
         = [(''body'', Some [body_error
               ''cannot fetch body data. Content-Type 'text/xml' not allowed here.''])]) \<and>
   (\<exists>out E. handle_incoming_request (body_int_view [(''content-type'', ''application/json'')] ''{'')
                empty_heap = Inr out \<and>
       invoked_with out = [] \<and>
       status (objects (final_heap out) (returned out)) = 400 \<and>
       body (objects (final_heap out) (returned out))
         = JsonBody \<lparr>errors = Some E, result = None\<rparr> \<and>
       filter (\<lambda>e. fst e = ''body'') E = [(''body'', Some [body_error ''body is not a json''])])"
proof -
  let ?anns = "nothing_declared\<lparr>a_body := Some int_class\<rparr>"
  have ra: "\<forall>c. a_response ?anns = Some c \<longrightarrow> kind c = ResponseClass"
    and ab: "a_body ?anns = Some int_class"
    and oh: "\<forall>c. a_headers ?anns = Some c \<longrightarrow> \<not> isl (validate_headers (request w) c)"
    and om: "\<forall>c. a_match_info ?anns = Some c \<longrightarrow> \<not> isl (validate_match_info (request w) c)"
    and oq: "\<forall>c. a_query_params ?anns = Some c \<longrightarrow> \<not> isl (validate_query_params (request w) c)"
    for w
    by (simp_all add: nothing_declared_def)
  note inst = body_fetch_errors_answered_400 [OF body_int_view_facts(1) body_int_view_facts(2)
      body_int_annotations ra ab oh om oq, of _ _ _ empty_heap]
  have 1: "request_content_type (request (body_int_view [] ''7'')) = None"
    by (simp add: body_int_view_def content_type_examples)
  have 2: "request_content_type (request (body_int_view [(''Content-Type'', ''text/xml'')] ''7''))
             = Some ''text/xml''"
    by (simp add: body_int_view_def content_type_examples)
  have 3: "request_content_type (request (body_int_view [(''content-type'', ''application/json'')] ''{''))
             = Some ''application/json''"
      "req_json (request (body_int_view [(''content-type'', ''application/json'')] ''{'')) = None"
    by (simp_all add: body_int_view_def content_type_examples) (simp add: simple_request_def)
  show ?thesis
    using inst [of "[]" "''7''" "''missing Content-Type header''"]
      inst [of "[(''Content-Type'', ''text/xml'')]" "''7''"
        "''cannot fetch body data. Content-Type 'text/xml' not allowed here.''"]
      inst [of "[(''content-type'', ''application/json'')]" "''{''" "''body is not a json''"]
      1 2 3
    by simp
qed

text \<open>
  C2. A handler declares \<open>body: int\<close> and the request has content type \<open>text/plain\<close> and
  the body \<open>0\<close>. Validation succeeds with the value 0, and after data extraction the body
  surface has no bound value in the method parameters and, in the validation errors,
  \<open>None\<close> in place of a list of field errors; the request is answered with status 400 and
  the envelope \<open>{"errors": {"body": null}, "result": null}\<close>.
\<close>

theorem falsy_body_neither_bound_nor_error:
  "validate_body_data (request (body_int_view [(''Content-Type'', ''text/plain'')] ''0'')) int_class
     = Inr (VInt 0, None) \<and>
   extract_data (request (body_int_view [(''Content-Type'', ''text/plain'')] ''0''))
       (nothing_declared\<lparr>a_body := Some int_class\<rparr>)
     = Inr ([], [(''body'', None)]) \<and>
   final_status (handle_incoming_request
       (body_int_view [(''Content-Type'', ''text/plain'')] ''0'') empty_heap) = Inr 400 \<and>
   final_body (handle_incoming_request
       (body_int_view [(''Content-Type'', ''text/plain'')] ''0'') empty_heap)
     = Inr (JsonBody \<lparr>errors = Some [(''body'', None)], result = None\<rparr>)"
proof -
  let ?v = "body_int_view [(''Content-Type'', ''text/plain'')] ''0''"
  let ?anns = "nothing_declared\<lparr>a_body := Some int_class\<rparr>"
  have i: "int_of_text ''0'' = Some 0" by code_simp
  have ct: "request_content_type (request ?v) = Some ''text/plain''"
    by (simp add: body_int_view_def content_type_examples)
  have tx: "req_text (request ?v) = ''0''"
    by (simp add: body_int_view_def simple_request_def)
  have vb: "validate_body_data (request ?v) int_class = Inr (VInt 0, None)"
    by (simp add: validate_body_data_def fetch_body_data_def ct tx int_class_def i)
  have ed: "extract_data (request ?v) ?anns = Inr ([], [(''body'', None)])"
    by (simp add: extract_data_def extract_surface_cases nothing_declared_def vb)
  have ra: "\<forall>c. a_response ?anns = Some c \<longrightarrow> kind c = ResponseClass"
    by (simp add: nothing_declared_def)
  from pipeline_400 [OF body_int_view_facts(1) body_int_view_facts(2) body_int_annotations ra ed,
      of empty_heap]
  have "final_status (handle_incoming_request ?v empty_heap) = Inr 400 \<and>
        final_body (handle_incoming_request ?v empty_heap)
          = Inr (JsonBody \<lparr>errors = Some [(''body'', None)], result = None\<rparr>)"
    by (auto simp: final_status_def final_body_def)
  with vb ed show ?thesis by simp
qed

end
